theory Spec2Isabelle
  imports Complex_Main "HOL-Library.AList"
begin

section \<open>Text and digits\<close>

text \<open>
  Python strings are sequences of code points. The strings the bank computes with (PIN,
  MCC, BIC, payment system, PAN, account number) are modelled as \<^typ>\<open>string\<close>, one
  \<^typ>\<open>char\<close> per code point below 256. The customer names, which the bank requires to be
  Cyrillic, are lists of code points (\<open>ustring\<close>).
\<close>

type_synonym ustring = "nat list"

text \<open>\<open>int(d)\<close> for a one-character string \<open>d\<close>: the value of a decimal digit, and
  \<open>ValueError\<close> (here \<open>None\<close>) for every other character below 256.\<close>

definition int_of_char :: "char \<Rightarrow> nat option" where
  "int_of_char c =
     (let code = (of_char c :: nat) in if 48 \<le> code \<and> code \<le> 57 then Some (code - 48) else None)"

text \<open>\<open>[int(d) for d in s]\<close>: \<open>None\<close> when some \<open>int(d)\<close> raises.\<close>

fun ints_of_str :: "string \<Rightarrow> nat list option" where
  "ints_of_str [] = Some []"
| "ints_of_str (c # cs) =
     (case int_of_char c of
        None \<Rightarrow> None
      | Some d \<Rightarrow> (case ints_of_str cs of None \<Rightarrow> None | Some ds \<Rightarrow> Some (d # ds)))"

text \<open>\<open>str(d)\<close> for \<open>0 \<le> d \<le> 9\<close>.\<close>

definition digit_char :: "nat \<Rightarrow> char" where
  "digit_char d = char_of (48 + d)"

text \<open>\<open>str(n)\<close> for a non-negative integer: its decimal digits, no leading zero.\<close>

function str_nat :: "nat \<Rightarrow> string" where
  "str_nat n = (if n < 10 then [digit_char n] else str_nat (n div 10) @ [digit_char (n mod 10)])"
  by pat_completeness auto
termination
  by (relation "measure id") auto

declare str_nat.simps [simp del]

text \<open>\<open>f"{n:0wd}"\<close> for a non-negative integer: zeros on the left up to width \<open>w\<close>, and
  the whole number when it is wider.\<close>

definition zero_padded :: "nat \<Rightarrow> nat \<Rightarrow> string" where
  "zero_padded w n = replicate (w - length (str_nat n)) CHR ''0'' @ str_nat n"

text \<open>\<open>c.isdigit()\<close> for a code point below 256: the ten decimal digits and the
  superscripts two, three and one (U+00B2, U+00B3, U+00B9).\<close>

definition char_isdigit :: "char \<Rightarrow> bool" where
  "char_isdigit c =
     (int_of_char c \<noteq> None \<or> of_char c = (178::nat) \<or> of_char c = (179::nat)
      \<or> of_char c = (185::nat))"

text \<open>\<open>s.isdigit()\<close>: every character is a digit, and there is at least one.\<close>

definition isdigit :: "string \<Rightarrow> bool" where
  "isdigit s = (s \<noteq> [] \<and> list_all char_isdigit s)"

text \<open>\<open>s.upper()\<close> on the letters a to z; the payment systems the bank knows are
  written with these, and no other code point below 256 has one of them as its
  upper case.\<close>

definition char_upper :: "char \<Rightarrow> char" where
  "char_upper c =
     (let n = (of_char c :: nat) in if 97 \<le> n \<and> n \<le> 122 then char_of (n - 32) else c)"

definition upper :: "string \<Rightarrow> string" where
  "upper s = map char_upper s"

section \<open>Constants\<close>

definition DEFAULT_PAYMENT_SYSTEM :: string where
  "DEFAULT_PAYMENT_SYSTEM = ''MIR''"

definition ACCOUNT_TYPE_CODE :: string where
  "ACCOUNT_TYPE_CODE = ''40817''"

definition ACCOUNT_BRANCH :: string where
  "ACCOUNT_BRANCH = ''0000''"

definition ACCOUNT_CURRENCY :: string where
  "ACCOUNT_CURRENCY = ''810''"

definition CARD_CURRENCY :: string where
  "CARD_CURRENCY = ''RUB''"

definition BIN_BY_SYSTEM :: "(string \<times> string) list" where
  "BIN_BY_SYSTEM = [(''MIR'', ''220400''), (''VISA'', ''400000''), (''MASTERCARD'', ''510000'')]"

definition FORBIDDEN_MCC :: "string list" where
  "FORBIDDEN_MCC = [''7995'', ''4829'', ''6051'']"

definition DEPOSIT_LIMIT :: real where
  "DEPOSIT_LIMIT = 1000000"

definition TRANSFER_LIMIT :: real where
  "TRANSFER_LIMIT = 500000"

definition PAY_LIMIT :: real where
  "PAY_LIMIT = 500000"

definition MAX_CASHBACK_RATE :: real where
  "MAX_CASHBACK_RATE = 1 / 10"

definition MAX_SAVING_INTEREST_RATE :: real where
  "MAX_SAVING_INTEREST_RATE = 3 / 10"

definition DEBIT_DEFAULT_CASHBACK_RATE :: real where
  "DEBIT_DEFAULT_CASHBACK_RATE = 3 / 100"

definition SAVING_CARD_DEFAULT_INTEREST :: real where
  "SAVING_CARD_DEFAULT_INTEREST = 15 / 1000"

definition EXPIRE_YEARS :: int where
  "EXPIRE_YEARS = 4"

section \<open>Error taxonomy\<close>

text \<open>
  The message catalogue: one constructor per message constant of the error classes. The
  two messages that are formatted carry their argument.
\<close>

datatype message =
    PIN_MISMATCH | PIN_INVALID | PIN_FORMAT_INVALID | NAME_INVALID | AMOUNT_NEGATIVE
  | DEPOSIT_AMOUNT_NEGATIVE | CASHBACK_NEGATIVE | INTEREST_NEGATIVE | PAY_AMOUNT_NEGATIVE
  | INVALID_MCC | PAYMENT_SYSTEM_NOT_SUPPORTED string
  | RECIPIENT_NOT_FOUND
  | CARD_CLOSED | ACCOUNT_NOT_LINKED | BANK_NOT_LINKED | RECIPIENT_ACCOUNT_NOT_LINKED
  | RECIPIENT_CARD_CLOSED
  | DEPOSIT_LIMIT_EXCEEDED | TRANSFER_LIMIT_EXCEEDED | CASHBACK_LIMIT | TRANSFER_TO_SELF
  | USER_CONFLICT | TOO_MANY_DEBIT_CARDS | MCC_FORBIDDEN string | PURCHASE_LIMIT_EXCEEDED
  | PAYMENT_NOT_ALLOWED_FOR_SAVING | SAVING_RATE_TOO_HIGH
  | INSUFFICIENT_FUNDS_FOR_PAYMENT | INSUFFICIENT_FUNDS_FOR_TRANSFER

text \<open>
  What a method body can raise: the five subclasses of \<open>BankError\<close>, each with its
  message, and the exceptions of the language itself that the code does not guard
  against (\<open>int\<close> of a non-digit, an unexpected keyword argument, an invalid calendar
  date, an attribute of \<open>None\<close>, a missing dictionary key).
\<close>

datatype exn =
    ValidationError message
  | NotFoundError message
  | AccessError message
  | BusinessRuleError message
  | InsufficientFundsError message
  | ValueError
  | TypeError
  | AttributeError
  | KeyError

section \<open>Identifier generation\<close>

subsection \<open>Account numbers\<close>

text \<open>\<open>weights = [7, 1, 3] * 8\<close>\<close>

definition weights :: "nat list" where
  "weights = concat (replicate 8 [7, 1, 3])"

text \<open>\<open>sum(x % 10 for x in [a * b for a, b in zip(digits, weights)])\<close>\<close>

definition control_sum :: "nat list \<Rightarrow> nat" where
  "control_sum digits = sum_list (map (\<lambda>(a, b). (a * b) mod 10) (zip digits weights))"

text \<open>\<open>bic[-3::]\<close>: the last three characters, or the whole string when it is shorter.\<close>

definition bic_tail_of :: "string \<Rightarrow> string" where
  "bic_tail_of bic_code = drop (length bic_code - 3) bic_code"

definition candidate_account_number :: "string \<Rightarrow> nat \<Rightarrow> string" where
  "candidate_account_number serial control_digit =
     (ACCOUNT_TYPE_CODE @ ACCOUNT_CURRENCY) @ str_nat control_digit @ ACCOUNT_BRANCH @ serial"

text \<open>
  The body of the loop \<open>for control_digit in range(10)\<close> of \<open>Bank._next_account_number\<close>,
  over the control digits still to try. \<open>Inl ValueError\<close> is raised by \<open>int(d)\<close>;
  \<open>Inr None\<close> is the end of the loop with no \<open>return\<close>, after which the method returns
  \<open>None\<close>.
\<close>

fun control_digit_loop :: "string \<Rightarrow> string \<Rightarrow> nat list \<Rightarrow> exn + string option" where
  "control_digit_loop bic_tail serial [] = Inr None"
| "control_digit_loop bic_tail serial (control_digit # rest) =
     (let candidate = candidate_account_number serial control_digit in
      case ints_of_str (bic_tail @ candidate) of
        None \<Rightarrow> Inl ValueError
      | Some digits \<Rightarrow>
          if control_sum digits mod 10 = 0 then Inr (Some candidate)
          else control_digit_loop bic_tail serial rest)"

text \<open>\<open>Bank._next_account_number\<close>, given the BIC and the value \<open>next(self._account_seq)\<close>
  (the caller advances the counter).\<close>

definition next_account_number :: "string \<Rightarrow> nat \<Rightarrow> exn + string option" where
  "next_account_number bic_code account_seq_value =
     control_digit_loop (bic_tail_of bic_code) (zero_padded 7 account_seq_value) [0..<10]"

subsection \<open>PAN and Luhn check digit\<close>

text \<open>The loop \<open>for i in range(1, len(digits), 2)\<close> of \<open>Bank._luhn\<close>, which overwrites
  \<open>digits[i]\<close>.\<close>

function luhn_loop :: "nat \<Rightarrow> nat list \<Rightarrow> nat list" where
  "luhn_loop i digits =
     (if i < length digits
      then (let doubled = digits ! i * 2
            in luhn_loop (i + 2) (digits[i := (if doubled > 9 then doubled - 9 else doubled)]))
      else digits)"
  by pat_completeness auto
termination
  by (relation "measure (\<lambda>(i, digits). length digits - i)") auto

declare luhn_loop.simps [simp del]

text \<open>\<open>Bank._luhn\<close>; \<open>Inl ValueError\<close> is raised by \<open>int(d)\<close>.\<close>

definition luhn :: "string \<Rightarrow> exn + nat" where
  "luhn number15 =
     (case ints_of_str (rev number15) of
        None \<Rightarrow> Inl ValueError
      | Some digits \<Rightarrow> Inr ((10 - sum_list (luhn_loop 1 digits) mod 10) mod 10))"

text \<open>\<open>BIN_BY_SYSTEM.get(system.upper(), BIN_BY_SYSTEM[DEFAULT_PAYMENT_SYSTEM])\<close>\<close>

definition bin_code_of :: "string \<Rightarrow> string" where
  "bin_code_of system =
     (case map_of BIN_BY_SYSTEM (upper system) of
        Some b \<Rightarrow> b
      | None \<Rightarrow> the (map_of BIN_BY_SYSTEM DEFAULT_PAYMENT_SYSTEM))"

text \<open>\<open>Bank._generate_pan\<close>, given the value \<open>next(self._pan_seq)\<close>.\<close>

definition generate_pan :: "string \<Rightarrow> nat \<Rightarrow> exn + string" where
  "generate_pan system pan_seq_value =
     (let partial = bin_code_of system @ zero_padded 9 pan_seq_value in
      case luhn partial of
        Inl e \<Rightarrow> Inl e
      | Inr check \<Rightarrow> Inr (partial @ str_nat check))"






section \<open>Dates and timestamps\<close>

text \<open>
  A \<open>datetime.date\<close> is the number of days from \<open>ISSUE_DATE_START\<close> (1 January 2022) to it,
  so that adding \<open>timedelta(days=i)\<close> is adding \<open>i\<close> and dates compare as integers. The
  calendar fields of a date, which \<open>Card.__init__\<close> reads to build the expiry date, follow
  the proleptic Gregorian calendar of \<open>datetime\<close>.
\<close>

type_synonym date = int

definition is_leap :: "int \<Rightarrow> bool" where
  "is_leap y = (y mod 4 = 0 \<and> (y mod 100 \<noteq> 0 \<or> y mod 400 = 0))"

definition days_in_month :: "int \<Rightarrow> int \<Rightarrow> int" where
  "days_in_month y m =
     (if m = 2 then (if is_leap y then 29 else 28)
      else if m = 4 \<or> m = 6 \<or> m = 9 \<or> m = 11 then 30 else 31)"

text \<open>Days from 1 March of year 0 to the first day of year \<open>y\<close>, the years counted from
  March so that the leap day is the last day of a year.\<close>

definition days_before_march_year :: "int \<Rightarrow> int" where
  "days_before_march_year y = 365 * y + y div 4 - y div 100 + y div 400"

text \<open>The date with the calendar fields \<open>y\<close>, \<open>m\<close>, \<open>d\<close>, for a valid combination.\<close>

definition date_of_fields :: "int \<Rightarrow> int \<Rightarrow> int \<Rightarrow> date" where
  "date_of_fields y m d =
     (let y' = (if m \<le> 2 then y - 1 else y);
          m' = (if m \<le> 2 then m + 9 else m - 3)
      in days_before_march_year y' + (153 * m' + 2) div 5 + (d - 1)
         - (days_before_march_year 2021 + 306))"

text \<open>The calendar fields (year, month, day) of a date.\<close>

definition fields_of_date :: "date \<Rightarrow> int \<times> int \<times> int" where
  "fields_of_date n =
     (let z = n + (days_before_march_year 2021 + 306);
          era = z div 146097;
          doe = z - era * 146097;
          yoe = (doe - doe div 1460 + doe div 36524 - doe div 146096) div 365;
          doy = doe - (365 * yoe + yoe div 4 - yoe div 100);
          mp = (5 * doy + 2) div 153;
          d = doy - (153 * mp + 2) div 5 + 1;
          m = (if mp < 10 then mp + 3 else mp - 9)
      in (yoe + era * 400 + (if m \<le> 2 then 1 else 0), m, d))"

text \<open>\<open>datetime.date(y, m, d)\<close>: \<open>None\<close> is the \<open>ValueError\<close> of a combination that is not
  a date.\<close>

definition make_date :: "int \<Rightarrow> int \<Rightarrow> int \<Rightarrow> date option" where
  "make_date y m d =
     (if 1 \<le> y \<and> y \<le> 9999 \<and> 1 \<le> m \<and> m \<le> 12 \<and> 1 \<le> d \<and> d \<le> days_in_month y m
      then Some (date_of_fields y m d) else None)"

text \<open>The expiry date that \<open>Card.__init__\<close> computes:
  \<open>date(issue_date.year + EXPIRE_YEARS, issue_date.month, issue_date.day)\<close>.\<close>

definition expiry_date_of :: "date \<Rightarrow> date option" where
  "expiry_date_of issue =
     (case fields_of_date issue of (y, m, d) \<Rightarrow> make_date (y + EXPIRE_YEARS) m d)"

record datetime =
  dt_date :: date
  hour :: nat
  minute :: nat
  second :: nat

text \<open>The value that \<open>timestamp_generator\<close> yields for the index \<open>i\<close>.\<close>

definition timestamp_at :: "nat \<Rightarrow> datetime" where
  "timestamp_at i =
     \<lparr>dt_date = int i, hour = (9 + (i * 3) mod 10) mod 24, minute = (i * 7) mod 60,
      second = (i * 11) mod 60\<rparr>"

text \<open>
  \<open>next_timestamp_after\<close>: the loop \<open>while True\<close> draws from the shared generator until a
  timestamp falls on a later day than \<open>issue_date\<close>. The second argument is the number of
  values the generator has yielded so far; the result is the timestamp and the new count.
\<close>

function next_timestamp_after :: "date \<Rightarrow> nat \<Rightarrow> datetime \<times> nat" where
  "next_timestamp_after issue_date drawn =
     (let ts = timestamp_at drawn
      in if dt_date ts > issue_date then (ts, Suc drawn)
         else next_timestamp_after issue_date (Suc drawn))"
  by pat_completeness auto
termination
  by (relation "measure (\<lambda>(issue_date, drawn). nat (issue_date + 1 - int drawn))")
    (auto simp: timestamp_at_def)

declare next_timestamp_after.simps [simp del]

text \<open>Datetimes compare by date, then hour, minute and second.\<close>

definition datetime_key :: "datetime \<Rightarrow> int" where
  "datetime_key ts = ((dt_date ts * 24 + int (hour ts)) * 60 + int (minute ts)) * 60 + int (second ts)"

section \<open>Money\<close>

text \<open>
  Amounts, balances and rates are Python floats. They are modelled as real numbers: the
  comparisons and the arithmetic of the code are exact here, and the rounding of binary
  floating point, infinities and NaN are outside the model.
\<close>

text \<open>\<open>round(x, 2)\<close> on exact numbers: the nearest multiple of 0.01, a tie going to the
  even one.\<close>

definition round_half_even :: "real \<Rightarrow> int" where
  "round_half_even x =
     (let f = \<lfloor>x\<rfloor>; r = x - of_int f
      in if r < 1 / 2 then f else if r > 1 / 2 then f + 1 else if even f then f else f + 1)"

definition round2 :: "real \<Rightarrow> real" where
  "round2 x = of_int (round_half_even (x * 100)) / 100"

section \<open>Data model\<close>

datatype CardStatus = ACTIVE | CLOSED | BLOCKED

datatype TransactionType = DEPOSIT | TRANSFER | PAY | INTEREST

text \<open>The description of a transaction: the template that is formatted, with its
  arguments (the text itself is not rendered).\<close>

datatype description =
    DEPOSIT_DESCRIPTION real nat
  | TRANSFER_DESCRIPTION real nat nat
  | PAY_DESCRIPTION real string nat
  | CB_DEBIT_PAY_DESCRIPTION real string nat real
  | SAVING_INTEREST_DESCRIPTION real nat

record Transaction =
  from_card :: "nat option"
  to_card :: "nat option"
  amount :: real
  tr_type :: TransactionType
  mcc :: "string option"
  description :: description
  timestamp :: datetime
  cash_back :: real

text \<open>
  Objects live in the world below. An \<open>Account\<close> names its owner by the user's id; a
  \<open>User\<close> and a \<open>Card\<close> name accounts and cards by their position in the lists of account
  and card objects.
\<close>

record User =
  last_name :: ustring
  first_name :: ustring
  pin :: string
  phone :: string
  user_id :: nat
  accounts :: "nat list"
  cards :: "nat list"

record Account =
  owner :: nat
  acc_id :: "string option"
  balance :: real
  cashback_balance :: real

text \<open>The class of a card object, with the attribute that the class adds:
  \<open>cashback_rate\<close> for \<open>CashbackDebitCard\<close>, \<open>interest_rate\<close> for \<open>SavingCard\<close>.\<close>

datatype variant =
    PlainCard
  | SimpleDebitCard
  | CashbackDebitCard real
  | SavingCard real

record Card =
  account :: "nat option"
  card_id :: nat
  payment_system :: string
  pan :: string
  issue_date :: date
  expiry_date :: date
  currency :: string
  status :: CardStatus
  bank :: bool
  transactions :: "Transaction list"
  variant :: variant

text \<open>
  The world: the one \<open>Bank\<close> of a simulation (its fields, the four counters given by the
  next value each yields), the module's shared generators (by the number of values drawn)
  and error log, and the account and card objects. \<open>bank\<close> of a card says whether its
  back-reference to the bank is set.
\<close>

record world =
  bank_name :: ustring
  bic :: string
  user_seq :: nat
  account_seq :: nat
  card_seq :: nat
  pan_seq :: nat
  customers :: "(nat \<times> User) list"
  bank_accounts :: "(nat \<times> nat list) list"
  bank_cards :: "(nat \<times> nat list) list"
  transaction_log :: "Transaction list"
  ISSUE_DATE_GENERATOR :: nat
  TIMESTAMP_GENERATOR :: nat
  error_log :: "message list"
  account_objs :: "Account list"
  card_objs :: "Card list"

text \<open>\<open>Bank(name=..., bic=...)\<close> in a fresh process.\<close>

definition new_bank :: "ustring \<Rightarrow> string \<Rightarrow> world" where
  "new_bank name bic_code =
     \<lparr>bank_name = name, bic = bic_code, user_seq = 1, account_seq = 1, card_seq = 1,
      pan_seq = 1, customers = [], bank_accounts = [], bank_cards = [],
      transaction_log = [], ISSUE_DATE_GENERATOR = 0, TIMESTAMP_GENERATOR = 0,
      error_log = [], account_objs = [], card_objs = []\<rparr>"

text \<open>What a call returns: \<open>None\<close>, the balance text (by the balance it shows), the card
  information (by the fields it lists), a card's history (each line with the sign that
  \<open>tr__repr__\<close> gives the amount), the bank's history, or a card object.\<close>

datatype ret =
    NoneValue
  | BalanceText real
  | CardInfoText "string list"
  | HistoryLines "(bool \<times> Transaction) list"
  | GlobalHistory "Transaction list"
  | CardObject nat

type_synonym outcome = "(exn + ret) \<times> world"

subsection \<open>Reading and writing objects\<close>

text \<open>The card object behind a reference; a call on anything else is an
  \<open>AttributeError\<close>.\<close>

definition card_at :: "world \<Rightarrow> nat \<Rightarrow> Card option" where
  "card_at w c = (if c < length (card_objs w) then Some (card_objs w ! c) else None)"

text \<open>\<open>card.account\<close>: the reference and the object, \<open>None\<close> for a card with no account
  (a reference to no object does not occur, and reads as \<open>None\<close>).\<close>

definition account_of :: "world \<Rightarrow> Card \<Rightarrow> (nat \<times> Account) option" where
  "account_of w crd =
     (case account crd of
        None \<Rightarrow> None
      | Some a \<Rightarrow> if a < length (account_objs w) then Some (a, account_objs w ! a) else None)"

definition set_status :: "nat \<Rightarrow> CardStatus \<Rightarrow> world \<Rightarrow> world" where
  "set_status c s w = w\<lparr>card_objs := (card_objs w)[c := (card_objs w ! c)\<lparr>status := s\<rparr>]\<rparr>"

text \<open>\<open>account.balance += x\<close>\<close>

definition add_balance :: "nat \<Rightarrow> real \<Rightarrow> world \<Rightarrow> world" where
  "add_balance a x w =
     w\<lparr>account_objs :=
         (account_objs w)[a := (account_objs w ! a)\<lparr>balance := balance (account_objs w ! a) + x\<rparr>]\<rparr>"

text \<open>\<open>account.cashback_balance += x\<close>\<close>

definition add_cashback :: "nat \<Rightarrow> real \<Rightarrow> world \<Rightarrow> world" where
  "add_cashback a x w =
     w\<lparr>account_objs :=
         (account_objs w)[a := (account_objs w ! a)
            \<lparr>cashback_balance := cashback_balance (account_objs w ! a) + x\<rparr>]\<rparr>"

text \<open>\<open>self.bank.transaction_log.append(trans)\<close>\<close>

definition log_transaction :: "Transaction \<Rightarrow> world \<Rightarrow> world" where
  "log_transaction tr w = w\<lparr>transaction_log := transaction_log w @ [tr]\<rparr>"

text \<open>\<open>card.transactions.append(trans)\<close>\<close>

definition append_transaction :: "nat \<Rightarrow> Transaction \<Rightarrow> world \<Rightarrow> world" where
  "append_transaction c tr w =
     w\<lparr>card_objs :=
         (card_objs w)[c := (card_objs w ! c)\<lparr>transactions := transactions (card_objs w ! c) @ [tr]\<rparr>]\<rparr>"

text \<open>\<open>status in [CardStatus.CLOSED, CardStatus.BLOCKED]\<close>\<close>

definition closed_or_blocked :: "CardStatus \<Rightarrow> bool" where
  "closed_or_blocked s = (s \<in> set [CLOSED, BLOCKED])"

text \<open>Drawing the timestamp of an operation advances the shared generator.\<close>

definition draw_timestamp :: "date \<Rightarrow> world \<Rightarrow> datetime \<times> world" where
  "draw_timestamp issue w =
     (case next_timestamp_after issue (TIMESTAMP_GENERATOR w) of
        (ts, drawn) \<Rightarrow> (ts, w\<lparr>TIMESTAMP_GENERATOR := drawn\<rparr>))"

subsection \<open>The decorator\<close>

text \<open>The message of a \<open>BankError\<close>; \<open>None\<close> for the other exceptions.\<close>

fun bank_error_message :: "exn \<Rightarrow> message option" where
  "bank_error_message (ValidationError m) = Some m"
| "bank_error_message (NotFoundError m) = Some m"
| "bank_error_message (AccessError m) = Some m"
| "bank_error_message (BusinessRuleError m) = Some m"
| "bank_error_message (InsufficientFundsError m) = Some m"
| "bank_error_message _ = None"

text \<open>\<open>try_except_dec\<close>: a \<open>BankError\<close> raised by the body is appended to the error log and
  the call returns \<open>None\<close>; any other exception passes through.\<close>

definition try_except_dec :: "(world \<Rightarrow> outcome) \<Rightarrow> world \<Rightarrow> outcome" where
  "try_except_dec func w =
     (case func w of
        (Inl e, w') \<Rightarrow>
          (case bank_error_message e of
             Some m \<Rightarrow> (Inr NoneValue, w'\<lparr>error_log := error_log w' @ [m]\<rparr>)
           | None \<Rightarrow> (Inl e, w'))
      | (Inr v, w') \<Rightarrow> (Inr v, w'))"

section \<open>Card operations\<close>

text \<open>
  Each method is modelled by its body: the world goes in, and the result (\<open>Inl\<close> for a
  raised exception, \<open>Inr\<close> for the returned value) comes out with the world as the body left
  it. The first argument is the reference \<open>self\<close>. The public method is the body under
  \<open>try_except_dec\<close> where the source decorates it.
\<close>

definition Card_deposit :: "nat \<Rightarrow> real \<Rightarrow> world \<Rightarrow> outcome" where
  "Card_deposit self amt w =
     (case card_at w self of
        None \<Rightarrow> (Inl AttributeError, w)
      | Some this \<Rightarrow>
          if amt \<le> 0 then (Inl (ValidationError DEPOSIT_AMOUNT_NEGATIVE), w)
          else (case account_of w this of
            None \<Rightarrow> (Inl (AccessError ACCOUNT_NOT_LINKED), w)
          | Some (a, acc) \<Rightarrow>
              if closed_or_blocked (status this) then (Inl (AccessError CARD_CLOSED), w)
              else if amt > DEPOSIT_LIMIT
              then (Inl (BusinessRuleError DEPOSIT_LIMIT_EXCEEDED), set_status self BLOCKED w)
              else
                (case draw_timestamp (issue_date this) w of
                   (ts, w1) \<Rightarrow>
                     let w2 = add_balance a amt w1;
                         tr = \<lparr>from_card = None, to_card = Some (card_id this),
                               amount = amt, tr_type = DEPOSIT, mcc = None,
                               description = DEPOSIT_DESCRIPTION amt (card_id this),
                               timestamp = ts, cash_back = 0\<rparr>
                     in if \<not> bank this then (Inl AttributeError, w2)
                        else (Inr NoneValue, append_transaction self tr (log_transaction tr w2)))))"

definition Card_transfer :: "nat \<Rightarrow> nat option \<Rightarrow> real \<Rightarrow> world \<Rightarrow> outcome" where
  "Card_transfer self to_card_ref amt w =
     (case card_at w self of
        None \<Rightarrow> (Inl AttributeError, w)
      | Some this \<Rightarrow>
          if amt \<le> 0 then (Inl (ValidationError AMOUNT_NEGATIVE), w)
          else (case to_card_ref of
            None \<Rightarrow> (Inl (NotFoundError RECIPIENT_NOT_FOUND), w)
          | Some dest \<Rightarrow>
          (case account_of w this of
            None \<Rightarrow> (Inl (AccessError ACCOUNT_NOT_LINKED), w)
          | Some (a, acc) \<Rightarrow>
          (case card_at w dest of
            None \<Rightarrow> (Inl AttributeError, w)
          | Some that \<Rightarrow>
          (case account_of w that of
            None \<Rightarrow> (Inl (AccessError RECIPIENT_ACCOUNT_NOT_LINKED), w)
          | Some (b, acc') \<Rightarrow>
              if closed_or_blocked (status this) then (Inl (AccessError CARD_CLOSED), w)
              else if closed_or_blocked (status that)
              then (Inl (AccessError RECIPIENT_CARD_CLOSED), w)
              else if card_id this = card_id that
              then (Inl (BusinessRuleError TRANSFER_TO_SELF), w)
              else if amt > TRANSFER_LIMIT
              then (Inl (BusinessRuleError TRANSFER_LIMIT_EXCEEDED), set_status self BLOCKED w)
              else if balance acc < amt
              then (Inl (InsufficientFundsError INSUFFICIENT_FUNDS_FOR_TRANSFER), w)
              else
                (let latest_issue = max (issue_date this) (issue_date that)
                 in case draw_timestamp latest_issue w of
                   (ts, w1) \<Rightarrow>
                     let w2 = add_balance b amt (add_balance a (- amt) w1);
                         tr = \<lparr>from_card = Some (card_id this), to_card = Some (card_id that),
                               amount = amt, tr_type = TRANSFER, mcc = None,
                               description =
                                 TRANSFER_DESCRIPTION amt (card_id this) (card_id that),
                               timestamp = ts, cash_back = 0\<rparr>
                     in if \<not> bank this then (Inl AttributeError, w2)
                        else (Inr NoneValue,
                              append_transaction dest tr
                                (append_transaction self tr (log_transaction tr w2)))))))))"

text \<open>\<open>not isinstance(mcc, str) or not mcc.isdigit() or len(mcc) != 4\<close>, for a string.\<close>

definition invalid_mcc :: "string \<Rightarrow> bool" where
  "invalid_mcc code = (\<not> isdigit code \<or> length code \<noteq> 4)"

text \<open>\<open>Card.pay\<close>, which \<open>SimpleDebitCard\<close> inherits.\<close>

definition Card_pay :: "nat \<Rightarrow> real \<Rightarrow> string \<Rightarrow> world \<Rightarrow> outcome" where
  "Card_pay self amt code w =
     (case card_at w self of
        None \<Rightarrow> (Inl AttributeError, w)
      | Some this \<Rightarrow>
          if amt \<le> 0 then (Inl (ValidationError PAY_AMOUNT_NEGATIVE), w)
          else if invalid_mcc code then (Inl (ValidationError INVALID_MCC), w)
          else (case account_of w this of
            None \<Rightarrow> (Inl (AccessError ACCOUNT_NOT_LINKED), w)
          | Some (a, acc) \<Rightarrow>
              if closed_or_blocked (status this) then (Inl (AccessError CARD_CLOSED), w)
              else if code \<in> set FORBIDDEN_MCC
              then (Inl (BusinessRuleError (MCC_FORBIDDEN code)), w)
              else if amt > PAY_LIMIT
              then (Inl (BusinessRuleError PURCHASE_LIMIT_EXCEEDED), set_status self BLOCKED w)
              else if balance acc < amt
              then (Inl (InsufficientFundsError INSUFFICIENT_FUNDS_FOR_PAYMENT), w)
              else
                (case draw_timestamp (issue_date this) w of
                   (ts, w1) \<Rightarrow>
                     let w2 = add_balance a (- amt) w1;
                         tr = \<lparr>from_card = Some (card_id this), to_card = None,
                               amount = amt, tr_type = PAY, mcc = Some code,
                               description = PAY_DESCRIPTION amt code (card_id this),
                               timestamp = ts, cash_back = 0\<rparr>
                     in if \<not> bank this then (Inl AttributeError, w2)
                        else (Inr NoneValue, append_transaction self tr (log_transaction tr w2)))))"

text \<open>\<open>CashbackDebitCard.pay\<close>, for a card with the given \<open>cashback_rate\<close>.\<close>

definition CashbackDebitCard_pay :: "real \<Rightarrow> nat \<Rightarrow> real \<Rightarrow> string \<Rightarrow> world \<Rightarrow> outcome" where
  "CashbackDebitCard_pay cashback_rate self amt code w =
     (case card_at w self of
        None \<Rightarrow> (Inl AttributeError, w)
      | Some this \<Rightarrow>
          if amt \<le> 0 then (Inl (ValidationError PAY_AMOUNT_NEGATIVE), w)
          else if invalid_mcc code then (Inl (ValidationError INVALID_MCC), w)
          else if cashback_rate < 0 then (Inl (ValidationError CASHBACK_NEGATIVE), w)
          else (case account_of w this of
            None \<Rightarrow> (Inl (AccessError ACCOUNT_NOT_LINKED), w)
          | Some (a, acc) \<Rightarrow>
              if closed_or_blocked (status this) then (Inl (AccessError CARD_CLOSED), w)
              else if cashback_rate \<ge> MAX_CASHBACK_RATE
              then (Inl (BusinessRuleError CASHBACK_LIMIT), set_status self BLOCKED w)
              else if code \<in> set FORBIDDEN_MCC
              then (Inl (BusinessRuleError (MCC_FORBIDDEN code)), w)
              else if amt > PAY_LIMIT
              then (Inl (BusinessRuleError PURCHASE_LIMIT_EXCEEDED), set_status self BLOCKED w)
              else if balance acc < amt
              then (Inl (InsufficientFundsError INSUFFICIENT_FUNDS_FOR_PAYMENT), w)
              else
                (let cashback_amount = round2 (amt * cashback_rate)
                 in case draw_timestamp (issue_date this) w of
                   (ts, w1) \<Rightarrow>
                     let w2 = add_cashback a cashback_amount (add_balance a (- amt) w1);
                         tr = \<lparr>from_card = Some (card_id this), to_card = None,
                               amount = amt, tr_type = PAY, mcc = Some code,
                               description =
                                 CB_DEBIT_PAY_DESCRIPTION amt code (card_id this)
                                   cashback_amount,
                               timestamp = ts, cash_back = cashback_amount\<rparr>
                     in if \<not> bank this then (Inl AttributeError, w2)
                        else (Inr NoneValue, append_transaction self tr (log_transaction tr w2)))))"

text \<open>\<open>SavingCard.pay\<close>\<close>

definition SavingCard_pay :: "nat \<Rightarrow> real \<Rightarrow> string \<Rightarrow> world \<Rightarrow> outcome" where
  "SavingCard_pay self amt code w =
     (Inl (BusinessRuleError PAYMENT_NOT_ALLOWED_FOR_SAVING), w)"

text \<open>\<open>card.pay(amount, mcc)\<close>: the method of the card's class.\<close>

definition pay_body :: "nat \<Rightarrow> real \<Rightarrow> string \<Rightarrow> world \<Rightarrow> outcome" where
  "pay_body self amt code w =
     (case card_at w self of
        None \<Rightarrow> (Inl AttributeError, w)
      | Some this \<Rightarrow>
          (case variant this of
             PlainCard \<Rightarrow> Card_pay self amt code w
           | SimpleDebitCard \<Rightarrow> Card_pay self amt code w
           | CashbackDebitCard rate \<Rightarrow> CashbackDebitCard_pay rate self amt code w
           | SavingCard rate \<Rightarrow> SavingCard_pay self amt code w))"

text \<open>\<open>SavingCard.accrue_interest\<close>; the other classes have no such method.\<close>

definition SavingCard_accrue_interest :: "nat \<Rightarrow> world \<Rightarrow> outcome" where
  "SavingCard_accrue_interest self w =
     (case card_at w self of
        None \<Rightarrow> (Inl AttributeError, w)
      | Some this \<Rightarrow>
          (case variant this of
             SavingCard interest_rate \<Rightarrow>
               if interest_rate < 0 then (Inl (ValidationError INTEREST_NEGATIVE), w)
               else (case account_of w this of
                 None \<Rightarrow> (Inl (AccessError ACCOUNT_NOT_LINKED), w)
               | Some (a, acc) \<Rightarrow>
                   if closed_or_blocked (status this) then (Inl (AccessError CARD_CLOSED), w)
                   else if interest_rate \<ge> MAX_SAVING_INTEREST_RATE
                   then (Inl (BusinessRuleError SAVING_RATE_TOO_HIGH), set_status self BLOCKED w)
                   else
                     (let interest = round2 (balance acc * interest_rate);
                          w1 = add_balance a interest w
                      in case draw_timestamp (issue_date this) w1 of
                        (ts, w2) \<Rightarrow>
                          let tr = \<lparr>from_card = None, to_card = Some (card_id this),
                                    amount = interest, tr_type = INTEREST, mcc = None,
                                    description =
                                      SAVING_INTEREST_DESCRIPTION interest (card_id this),
                                    timestamp = ts, cash_back = 0\<rparr>
                          in if \<not> bank this then (Inl AttributeError, w2)
                             else (Inr NoneValue,
                                   append_transaction self tr (log_transaction tr w2))))
           | _ \<Rightarrow> (Inl AttributeError, w)))"

definition Card_get_balance :: "nat \<Rightarrow> world \<Rightarrow> outcome" where
  "Card_get_balance self w =
     (case card_at w self of
        None \<Rightarrow> (Inl AttributeError, w)
      | Some this \<Rightarrow>
          (case account_of w this of
             None \<Rightarrow> (Inl (AccessError ACCOUNT_NOT_LINKED), w)
           | Some (a, acc) \<Rightarrow>
               if closed_or_blocked (status this) then (Inl (AccessError CARD_CLOSED), w)
               else (Inr (BalanceText (balance acc)), w)))"

text \<open>The keys of the dictionary \<open>data\<close> of \<open>Card.get_card_info\<close>, and the default
  fields.\<close>

definition CARD_INFO_KEYS :: "string list" where
  "CARD_INFO_KEYS =
     [''bank_name'', ''bank_bic'', ''card_id'', ''user_id'', ''phone'', ''pan'', ''acc_id'',
      ''payment_system'', ''currency'', ''status'', ''issue_date'', ''expiry_date'',
      ''user_cards'', ''cashback_balance'', ''balance'']"

definition DEFAULT_CARD_INFO_FIELDS :: "string list" where
  "DEFAULT_CARD_INFO_FIELDS =
     [''card_id'', ''user_id'', ''phone'', ''bank_name'', ''bank_bic'', ''acc_id'', ''pan'',
      ''payment_system'', ''currency'', ''status'', ''issue_date'', ''expiry_date'',
      ''balance'', ''cashback_balance'', ''user_cards'']"

definition Card_get_card_info :: "nat \<Rightarrow> string list option \<Rightarrow> world \<Rightarrow> outcome" where
  "Card_get_card_info self flds w =
     (case card_at w self of
        None \<Rightarrow> (Inl AttributeError, w)
      | Some this \<Rightarrow>
          (case account_of w this of
             None \<Rightarrow> (Inl (AccessError ACCOUNT_NOT_LINKED), w)
           | Some (a, acc) \<Rightarrow>
               if closed_or_blocked (status this) then (Inl (AccessError CARD_CLOSED), w)
               else if \<not> bank this then (Inl AttributeError, w)
               else
                 (let fields' = (case flds of None \<Rightarrow> DEFAULT_CARD_INFO_FIELDS | Some fs \<Rightarrow> fs)
                  in (Inr (CardInfoText (filter (\<lambda>f. f \<in> set CARD_INFO_KEYS) fields')), w))))"

text \<open>\<open>list.sort(key=lambda trans: trans.timestamp)\<close>: a stable sort by timestamp.\<close>

definition sort_by_timestamp :: "Transaction list \<Rightarrow> Transaction list" where
  "sort_by_timestamp ts = sort_key (\<lambda>tr. datetime_key (timestamp tr)) ts"

definition Card_get_transaction_history :: "nat \<Rightarrow> world \<Rightarrow> outcome" where
  "Card_get_transaction_history self w =
     (case card_at w self of
        None \<Rightarrow> (Inl AttributeError, w)
      | Some this \<Rightarrow>
          (case account_of w this of
             None \<Rightarrow> (Inl (AccessError ACCOUNT_NOT_LINKED), w)
           | Some (a, acc) \<Rightarrow>
               if \<not> bank this then (Inl (AccessError BANK_NOT_LINKED), w)
               else if closed_or_blocked (status this) then (Inl (AccessError CARD_CLOSED), w)
               else
                 (let sorted_transactions = sort_by_timestamp (transactions this);
                      w1 = w\<lparr>card_objs := (card_objs w)[self := this\<lparr>transactions := sorted_transactions\<rparr>]\<rparr>
                  in (Inr (HistoryLines
                             (map (\<lambda>tr. (to_card tr = Some (card_id this), tr)) sorted_transactions)),
                      w1))))"

definition Card_close :: "nat \<Rightarrow> world \<Rightarrow> outcome" where
  "Card_close self w =
     (case card_at w self of
        None \<Rightarrow> (Inl AttributeError, w)
      | Some this \<Rightarrow> (Inr NoneValue, set_status self CLOSED w))"

section \<open>Users\<close>

text \<open>\<open>User.change_pin\<close>, on the user object at a position of \<open>customers\<close>.\<close>

definition User_change_pin :: "nat \<Rightarrow> string \<Rightarrow> string \<Rightarrow> world \<Rightarrow> outcome" where
  "User_change_pin pos old_pin new_pin w =
     (if pos < length (customers w) then
        (case customers w ! pos of
           (k, user) \<Rightarrow>
             if length new_pin \<noteq> 4 \<or> length old_pin \<noteq> 4
             then (Inl (ValidationError PIN_INVALID), w)
             else if \<not> isdigit new_pin \<or> \<not> isdigit old_pin
             then (Inl (ValidationError PIN_FORMAT_INVALID), w)
             else if old_pin \<noteq> pin user then (Inl (ValidationError PIN_MISMATCH), w)
             else (Inr NoneValue,
                   w\<lparr>customers := (customers w)[pos := (k, user\<lparr>pin := new_pin\<rparr>)]\<rparr>))
      else (Inl AttributeError, w))"

section \<open>The bank\<close>

subsection \<open>Validation of an application\<close>

text \<open>The character class \<open>[\<dots>]\<close> of the two name patterns: the Cyrillic capitals and
  small letters U+0410 to U+044F, and the letter IO in both cases (U+0401, U+0451).\<close>

definition is_cyrillic_letter :: "nat \<Rightarrow> bool" where
  "is_cyrillic_letter c = ((1040 \<le> c \<and> c \<le> 1103) \<or> c = 1025 \<or> c = 1105)"

text \<open>\<open>re.fullmatch\<close> of the pattern \<open>^[\<dots>]+$\<close>: one or more letters and nothing else.\<close>

definition fullmatch_name :: "ustring \<Rightarrow> bool" where
  "fullmatch_name s = (s \<noteq> [] \<and> list_all is_cyrillic_letter s)"

text \<open>\<open>re.match\<close> of the pattern \<open>^[\<dots>]+$\<close>: as \<open>fullmatch\<close>, except that \<open>$\<close> also
  matches before a newline (U+000A) that ends the string.\<close>

definition match_name :: "ustring \<Rightarrow> bool" where
  "match_name s = (fullmatch_name s \<or> (s \<noteq> [] \<and> last s = 10 \<and> fullmatch_name (butlast s)))"

subsection \<open>Construction of a card\<close>

text \<open>The class passed as \<open>card_class\<close>, and the keyword arguments passed on to it.\<close>

datatype card_class =
  Card_class | SimpleDebitCard_class | CashbackDebitCard_class | SavingCard_class

record kwargs =
  kw_cashback_rate :: "real option"
  kw_interest_rate :: "real option"
  kw_issue_date :: "date option"
  kw_expiry_date :: "date option"
  kw_currency :: "string option"
  kw_status :: "CardStatus option"

definition no_kwargs :: kwargs where
  "no_kwargs =
     \<lparr>kw_cashback_rate = None, kw_interest_rate = None, kw_issue_date = None,
      kw_expiry_date = None, kw_currency = None, kw_status = None\<rparr>"

definition variant_of :: "card_class \<Rightarrow> kwargs \<Rightarrow> variant" where
  "variant_of cls kw =
     (case cls of
        Card_class \<Rightarrow> PlainCard
      | SimpleDebitCard_class \<Rightarrow> SimpleDebitCard
      | CashbackDebitCard_class \<Rightarrow>
          CashbackDebitCard
            (case kw_cashback_rate kw of None \<Rightarrow> DEBIT_DEFAULT_CASHBACK_RATE | Some r \<Rightarrow> r)
      | SavingCard_class \<Rightarrow>
          SavingCard
            (case kw_interest_rate kw of None \<Rightarrow> SAVING_CARD_DEFAULT_INTEREST | Some r \<Rightarrow> r))"

text \<open>
  \<open>card_class(account_, card_id, payment_system=\<dots>, pan=\<dots>, bank=self, **kwargs)\<close>: a
  keyword that the class does not take is a \<open>TypeError\<close>; \<open>Card.__init__\<close> draws the issue
  date from the shared generator unless one is given, and computes the expiry date unless
  one is given, which raises \<open>ValueError\<close> when the day does not exist four years later.
  The card comes out with the world, in which the generator has advanced.
\<close>

definition new_card ::
  "card_class \<Rightarrow> kwargs \<Rightarrow> nat \<Rightarrow> nat \<Rightarrow> string \<Rightarrow> string \<Rightarrow> world \<Rightarrow> (exn + Card) \<times> world" where
  "new_card cls kw account_ref cid system pan_number w =
     (if (kw_cashback_rate kw \<noteq> None \<and> cls \<noteq> CashbackDebitCard_class)
         \<or> (kw_interest_rate kw \<noteq> None \<and> cls \<noteq> SavingCard_class)
      then (Inl TypeError, w)
      else
        (case (case kw_issue_date kw of
                 Some d \<Rightarrow> (d, w)
               | None \<Rightarrow>
                   (int (ISSUE_DATE_GENERATOR w),
                    w\<lparr>ISSUE_DATE_GENERATOR := Suc (ISSUE_DATE_GENERATOR w)\<rparr>)) of
           (issue, w1) \<Rightarrow>
             (case (case kw_expiry_date kw of Some e \<Rightarrow> Some e | None \<Rightarrow> expiry_date_of issue) of
                None \<Rightarrow> (Inl ValueError, w1)
              | Some expiry \<Rightarrow>
                  (Inr \<lparr>account = Some account_ref, card_id = cid, payment_system = system,
                        pan = pan_number, issue_date = issue, expiry_date = expiry,
                        currency = (case kw_currency kw of None \<Rightarrow> CARD_CURRENCY | Some c \<Rightarrow> c),
                        status = (case kw_status kw of None \<Rightarrow> ACTIVE | Some s \<Rightarrow> s),
                        bank = True, transactions = [], variant = variant_of cls kw\<rparr>,
                   w1))))"

subsection \<open>Issuing a card\<close>

text \<open>The condition of the generator expression that looks an existing customer up.\<close>

definition same_customer :: "string \<Rightarrow> ustring \<Rightarrow> ustring \<Rightarrow> User \<Rightarrow> bool" where
  "same_customer ph lname fname user =
     (phone user = ph \<and> last_name user = lname \<and> first_name user = fname)"

text \<open>The condition of the \<open>any(\<dots>)\<close> that detects a phone number registered under
  another name.\<close>

definition conflicting_customer :: "string \<Rightarrow> ustring \<Rightarrow> ustring \<Rightarrow> User \<Rightarrow> bool" where
  "conflicting_customer ph lname fname user =
     (ph = phone user \<and> (first_name user \<noteq> fname \<or> last_name user \<noteq> lname))"

text \<open>
  The customer the card is issued to, by the position of the user object in \<open>customers\<close>:
  the first that matches, or else a new \<open>User\<close> with the next id, stored under that id
  with empty lists of accounts and cards (\<open>dict[k] = v\<close> replaces the value of a key that
  is present and appends the key otherwise).
\<close>

definition find_or_create_user ::
  "ustring \<Rightarrow> ustring \<Rightarrow> string \<Rightarrow> string \<Rightarrow> world \<Rightarrow> nat \<times> world" where
  "find_or_create_user lname fname pin_arg ph w =
     (case find (same_customer ph lname fname) (map snd (customers w)) of
        Some user \<Rightarrow>
          (length (takeWhile (\<lambda>p. \<not> same_customer ph lname fname (snd p)) (customers w)), w)
      | None \<Rightarrow>
          (let uid = user_seq w;
               user = \<lparr>last_name = lname, first_name = fname, pin = pin_arg, phone = ph,
                       user_id = uid, accounts = [], cards = []\<rparr>
           in (length (takeWhile (\<lambda>p. fst p \<noteq> uid) (customers w)),
               w\<lparr>user_seq := Suc uid,
                  customers := AList.update uid user (customers w),
                  bank_cards := AList.update uid [] (bank_cards w),
                  bank_accounts := AList.update uid [] (bank_accounts w)\<rparr>)))"

text \<open>\<open>d[k].append(x)\<close>: \<open>None\<close> is the \<open>KeyError\<close> of a missing key.\<close>

definition dict_append :: "nat \<Rightarrow> nat \<Rightarrow> (nat \<times> nat list) list \<Rightarrow> (nat \<times> nat list) list option" where
  "dict_append k x d =
     (case map_of d k of None \<Rightarrow> None | Some xs \<Rightarrow> Some (AList.update k (xs @ [x]) d))"

text \<open>
  The last part of \<open>Bank.apply_for_card\<close>: the account and the card become objects of the
  world, and are registered with the user and in the bank's dictionaries.
\<close>

definition register_card :: "nat \<Rightarrow> Account \<Rightarrow> Card \<Rightarrow> world \<Rightarrow> outcome" where
  "register_card pos acct crd w =
     (let a = length (account_objs w);
          c = length (card_objs w);
          w1 = w\<lparr>account_objs := account_objs w @ [acct], card_objs := card_objs w @ [crd]\<rparr>
      in (case customers w1 ! pos of
            (k, user) \<Rightarrow>
              (let w2 = w1\<lparr>customers :=
                           (customers w1)[pos := (k, user\<lparr>cards := cards user @ [c],
                                                         accounts := accounts user @ [a]\<rparr>)]\<rparr>
               in (case dict_append (user_id user) a (bank_accounts w2) of
                     None \<Rightarrow> (Inl KeyError, w2)
                   | Some accounts' \<Rightarrow>
                       (let w3 = w2\<lparr>bank_accounts := accounts'\<rparr>
                        in (case dict_append (user_id user) c (bank_cards w3) of
                              None \<Rightarrow> (Inl KeyError, w3)
                            | Some cards' \<Rightarrow>
                                (Inr (CardObject c), w3\<lparr>bank_cards := cards'\<rparr>)))))))"

definition Bank_apply_for_card ::
  "ustring \<Rightarrow> ustring \<Rightarrow> string \<Rightarrow> string \<Rightarrow> string \<Rightarrow> card_class \<Rightarrow> kwargs \<Rightarrow> world \<Rightarrow> outcome" where
  "Bank_apply_for_card lname fname pin_arg ph system cls kw w =
     (if \<not> isdigit pin_arg then (Inl (ValidationError PIN_FORMAT_INVALID), w)
      else if length pin_arg \<noteq> 4 then (Inl (ValidationError PIN_INVALID), w)
      else if \<not> fullmatch_name lname \<or> \<not> match_name fname
      then (Inl (ValidationError NAME_INVALID), w)
      else if upper system \<notin> set (map fst BIN_BY_SYSTEM)
      then (Inl (ValidationError (PAYMENT_SYSTEM_NOT_SUPPORTED system)), w)
      else if list_ex (conflicting_customer ph lname fname) (map snd (customers w))
      then (Inl (BusinessRuleError USER_CONFLICT), w)
      else if (case find (same_customer ph lname fname) (map snd (customers w)) of
                 Some user \<Rightarrow> length (cards user) \<ge> 5
               | None \<Rightarrow> False)
      then (Inl (BusinessRuleError TOO_MANY_DEBIT_CARDS), w)
      else
        (case find_or_create_user lname fname pin_arg ph w of
           (pos, w1) \<Rightarrow>
             let user = snd (customers w1 ! pos);
                 w2 = w1\<lparr>account_seq := Suc (account_seq w1)\<rparr>
             in (case next_account_number (bic w1) (account_seq w1) of
                   Inl e \<Rightarrow> (Inl e, w2)
                 | Inr number \<Rightarrow>
                     let acct = \<lparr>owner = user_id user, acc_id = number, balance = 0,
                                      cashback_balance = 0\<rparr>;
                         w3 = w2\<lparr>pan_seq := Suc (pan_seq w2)\<rparr>
                     in (case generate_pan system (pan_seq w2) of
                           Inl e \<Rightarrow> (Inl e, w3)
                         | Inr pan_number \<Rightarrow>
                             let w4 = w3\<lparr>card_seq := Suc (card_seq w3)\<rparr>
                             in (case new_card cls kw (length (account_objs w4)) (card_seq w3)
                                        system pan_number w4 of
                                   (Inl e, w5) \<Rightarrow> (Inl e, w5)
                                 | (Inr crd, w5) \<Rightarrow> register_card pos acct crd w5)))))"

text \<open>\<open>Bank.get_global_history\<close>, which sorts the bank's log in place.\<close>

definition Bank_get_global_history :: "world \<Rightarrow> outcome" where
  "Bank_get_global_history w =
     (let sorted_log = sort_by_timestamp (transaction_log w)
      in (Inr (GlobalHistory sorted_log), w\<lparr>transaction_log := sorted_log\<rparr>))"

section \<open>The public operations\<close>

text \<open>
  A call of a public method. Cards are named by their position among the card objects,
  users by their position in \<open>customers\<close>. The three \<open>issue_\<dots>\<close> methods of the bank are
  \<open>apply_for_card\<close> with the class fixed.
\<close>

datatype operation =
    Apply_for_card ustring ustring string string string card_class kwargs
  | Deposit nat real
  | Transfer nat "nat option" real
  | Pay nat real string
  | Accrue_interest nat
  | Get_balance nat
  | Get_card_info nat "string list option"
  | Get_transaction_history nat
  | Close nat
  | Change_pin nat string string
  | Get_global_history

text \<open>The public methods: the bodies, under \<open>try_except_dec\<close> where the source decorates
  them (\<open>Card.close\<close> and \<open>Bank.get_global_history\<close> are not decorated).\<close>

definition apply_for_card ::
  "ustring \<Rightarrow> ustring \<Rightarrow> string \<Rightarrow> string \<Rightarrow> string \<Rightarrow> card_class \<Rightarrow> kwargs \<Rightarrow> world \<Rightarrow> outcome" where
  "apply_for_card lname fname pin_arg ph system cls kw =
     try_except_dec (Bank_apply_for_card lname fname pin_arg ph system cls kw)"

definition issue_simple_debit_card ::
  "ustring \<Rightarrow> ustring \<Rightarrow> string \<Rightarrow> string \<Rightarrow> string \<Rightarrow> kwargs \<Rightarrow> world \<Rightarrow> outcome" where
  "issue_simple_debit_card lname fname pin_arg ph system kw =
     apply_for_card lname fname pin_arg ph system SimpleDebitCard_class kw"

definition issue_cashback_debit_card ::
  "ustring \<Rightarrow> ustring \<Rightarrow> string \<Rightarrow> string \<Rightarrow> string \<Rightarrow> kwargs \<Rightarrow> world \<Rightarrow> outcome" where
  "issue_cashback_debit_card lname fname pin_arg ph system kw =
     apply_for_card lname fname pin_arg ph system CashbackDebitCard_class kw"

definition issue_saving_card ::
  "ustring \<Rightarrow> ustring \<Rightarrow> string \<Rightarrow> string \<Rightarrow> string \<Rightarrow> kwargs \<Rightarrow> world \<Rightarrow> outcome" where
  "issue_saving_card lname fname pin_arg ph system kw =
     apply_for_card lname fname pin_arg ph system SavingCard_class kw"

fun body :: "operation \<Rightarrow> world \<Rightarrow> outcome" where
  "body (Apply_for_card lname fname pin_arg ph system cls kw) =
     Bank_apply_for_card lname fname pin_arg ph system cls kw"
| "body (Deposit self amt) = Card_deposit self amt"
| "body (Transfer self dest amt) = Card_transfer self dest amt"
| "body (Pay self amt code) = pay_body self amt code"
| "body (Accrue_interest self) = SavingCard_accrue_interest self"
| "body (Get_balance self) = Card_get_balance self"
| "body (Get_card_info self flds) = Card_get_card_info self flds"
| "body (Get_transaction_history self) = Card_get_transaction_history self"
| "body (Close self) = Card_close self"
| "body (Change_pin pos old_pin new_pin) = User_change_pin pos old_pin new_pin"
| "body Get_global_history = Bank_get_global_history"

fun decorated :: "operation \<Rightarrow> bool" where
  "decorated (Close self) = False"
| "decorated Get_global_history = False"
| "decorated _ = True"

definition call :: "operation \<Rightarrow> world \<Rightarrow> outcome" where
  "call op w = (if decorated op then try_except_dec (body op) w else body op w)"

text \<open>
  The worlds a simulation reaches: a new bank, then any sequence of public calls, each
  on the world the previous one left (also when it raised).
\<close>

definition run :: "ustring \<Rightarrow> string \<Rightarrow> operation list \<Rightarrow> world" where
  "run name bic_code ops = foldl (\<lambda>w op. snd (call op w)) (new_bank name bic_code) ops"

section \<open>Properties of worlds\<close>

subsection \<open>How cards evolve\<close>

text \<open>The status transitions of the card state machine: Active to Blocked, and Active or
  Blocked to Closed.\<close>

definition status_step :: "CardStatus \<Rightarrow> CardStatus \<Rightarrow> bool" where
  "status_step s s' =
     (s' = s \<or> (s = ACTIVE \<and> s' = BLOCKED) \<or> (s = ACTIVE \<and> s' = CLOSED)
      \<or> (s = BLOCKED \<and> s' = CLOSED))"

text \<open>A card without its status and its transaction list: what no operation
  changes.\<close>

definition identity_of :: "Card \<Rightarrow> Card" where
  "identity_of c = c\<lparr>status := ACTIVE, transactions := []\<rparr>"

definition card_evolves :: "Card \<Rightarrow> Card \<Rightarrow> bool" where
  "card_evolves c c' = (identity_of c' = identity_of c \<and> status_step (status c) (status c'))"

text \<open>\<open>evolves w w'\<close>: every card and account object of \<open>w\<close> is an object of \<open>w'\<close>,
  and each card kept its identity while its status took a transition of the state
  machine, or none.\<close>

definition evolves :: "world \<Rightarrow> world \<Rightarrow> bool" where
  "evolves w w' =
     (length (card_objs w) \<le> length (card_objs w')
      \<and> length (account_objs w) \<le> length (account_objs w')
      \<and> (\<forall>i<length (card_objs w). card_evolves (card_objs w ! i) (card_objs w' ! i)))"


subsection \<open>The fixtures of the repository's tests\<close>

text \<open>The bank, the customers and the cards of \<open>test_bank.py\<close>, the names given by their
  code points.\<close>

definition TEST_BANK_NAME :: ustring where
  "TEST_BANK_NAME = [1058, 1077, 1089, 1090, 1086, 1074, 1099, 1081, 32, 1041, 1072, 1085, 1082]"

definition TEST_BIC :: string where
  "TEST_BIC = ''044525974''"

definition IVANOV :: ustring where
  "IVANOV = [1048, 1074, 1072, 1085, 1086, 1074]"

definition IVAN :: ustring where
  "IVAN = [1048, 1074, 1072, 1085]"

definition PETROV :: ustring where
  "PETROV = [1055, 1077, 1090, 1088, 1086, 1074]"

definition PETR :: ustring where
  "PETR = [1055, 1077, 1090, 1088]"

definition SIDOROVA :: ustring where
  "SIDOROVA = [1057, 1080, 1076, 1086, 1088, 1086, 1074, 1072]"

definition ANNA :: ustring where
  "ANNA = [1040, 1085, 1085, 1072]"

text \<open>The call of the fixture \<open>sample_card\<close>.\<close>

definition apply_sample_card :: operation where
  "apply_sample_card =
     Apply_for_card IVANOV IVAN ''1234'' ''+79161234567'' ''MIR'' Card_class no_kwargs"

text \<open>The world of the fixture \<open>sample_card\<close>: one customer with one card.\<close>

definition sample_card_world :: world where
  "sample_card_world = run TEST_BANK_NAME TEST_BIC [apply_sample_card]"

text \<open>The world of the fixture \<open>two_cards\<close>: two customers with one card each.\<close>

definition two_cards_world :: world where
  "two_cards_world =
     run TEST_BANK_NAME TEST_BIC
       [Apply_for_card PETROV PETR ''1111'' ''+79161111111'' ''VISA'' Card_class no_kwargs,
        Apply_for_card SIDOROVA ANNA ''2222'' ''+79162222222'' ''MASTERCARD'' Card_class no_kwargs]"

text \<open>A world like that of \<open>sample_card\<close>, the card being a \<open>SavingCard\<close>.\<close>

definition saving_card_world :: world where
  "saving_card_world =
     run TEST_BANK_NAME TEST_BIC
       [Apply_for_card IVANOV IVAN ''1234'' ''+79161234567'' ''MIR'' SavingCard_class no_kwargs]"
section \<open>Properties of the identifier generators\<close>

subsection \<open>Digit strings\<close>

lemma int_of_digit_char: "d < 10 \<Longrightarrow> int_of_char (digit_char d) = Some d"
  by (simp add: int_of_char_def digit_char_def)

lemma int_of_char_lt: "int_of_char c = Some d \<Longrightarrow> d < 10"
  by (auto simp: int_of_char_def Let_def split: if_splits)

lemma digit_char_int_of: "int_of_char c = Some d \<Longrightarrow> digit_char d = c"
  by (auto simp: int_of_char_def digit_char_def Let_def split: if_splits)




lemma ints_of_str_lt: "ints_of_str s = Some ds \<Longrightarrow> \<forall>d\<in>set ds. d < 10"
  by (induction s arbitrary: ds) (auto split: option.splits dest: int_of_char_lt)

lemma ints_of_str_map_digit: "\<forall>d\<in>set ds. d < 10 \<Longrightarrow> ints_of_str (map digit_char ds) = Some ds"
  by (induction ds) (auto simp: int_of_digit_char)

lemma map_digit_ints_of_str: "ints_of_str s = Some ds \<Longrightarrow> map digit_char ds = s"
  by (induction s arbitrary: ds) (auto split: option.splits dest: digit_char_int_of)










subsection \<open>The control digit\<close>









subsection \<open>The search for the control digit\<close>














lemma str_nat_numeral [simp]:
  "str_nat (numeral k) =
     (if numeral k < (10::nat) then [digit_char (numeral k)]
      else str_nat (numeral k div 10) @ [digit_char (numeral k mod 10)])"
  by (rule str_nat.simps)


subsection \<open>The Luhn loop\<close>


lemma length_luhn_loop [simp]: "length (luhn_loop i ds) = length ds"
proof (induction i ds rule: luhn_loop.induct)
  case (1 i ds)
  show ?case
  proof (cases "i < length ds")
    case True
    with 1 show ?thesis by (subst luhn_loop.simps) (simp add: Let_def)
  next
    case False
    then show ?thesis by (subst luhn_loop.simps) simp
  qed
qed








section \<open>Every operation lets the cards evolve\<close>

lemma status_step_refl [simp]: "status_step s s"
  by (simp add: status_step_def)

lemma card_evolves_refl [simp]: "card_evolves c c"
  by (simp add: card_evolves_def)

lemma evolves_refl [simp]: "evolves w w"
  by (simp add: evolves_def)

lemma status_step_trans: "status_step a b \<Longrightarrow> status_step b c \<Longrightarrow> status_step a c"
  by (auto simp: status_step_def)

lemma card_evolves_trans: "card_evolves a b \<Longrightarrow> card_evolves b c \<Longrightarrow> card_evolves a c"
  by (auto simp: card_evolves_def intro: status_step_trans)

lemma evolves_trans: "evolves a b \<Longrightarrow> evolves b c \<Longrightarrow> evolves a c"
  unfolding evolves_def by (meson card_evolves_trans le_trans less_le_trans)

lemma card_evolves_transactions [simp]: "card_evolves c (c\<lparr>transactions := ts\<rparr>)"
  by (simp add: card_evolves_def identity_of_def)

lemma card_evolves_block: "status c = ACTIVE \<Longrightarrow> card_evolves c (c\<lparr>status := BLOCKED\<rparr>)"
  by (simp add: card_evolves_def identity_of_def status_step_def)

lemma card_evolves_close [simp]: "card_evolves c (c\<lparr>status := CLOSED\<rparr>)"
  by (cases "status c") (simp_all add: card_evolves_def identity_of_def status_step_def)

lemma evolves_card_update:
  assumes "evolves w0 w" and "card_evolves (card_objs w ! c) x"
  shows "evolves w0 (w\<lparr>card_objs := (card_objs w)[c := x]\<rparr>)"
proof -
  have "card_evolves (card_objs w ! i) ((card_objs w)[c := x] ! i)" if "i < length (card_objs w)" for i
    using assms(2) that by (cases "i = c") simp_all
  then have "evolves w (w\<lparr>card_objs := (card_objs w)[c := x]\<rparr>)"
    by (simp add: evolves_def)
  with assms(1) show ?thesis by (rule evolves_trans)
qed

lemma evolves_same_objs:
  assumes "evolves w0 w" and "card_objs w' = card_objs w"
    and "length (account_objs w') = length (account_objs w)"
  shows "evolves w0 w'"
  using assms by (simp add: evolves_def)

lemma evolves_set_status_blocked:
  assumes "evolves w0 w" and "card_at w c = Some this" and "\<not> closed_or_blocked (status this)"
  shows "evolves w0 (set_status c BLOCKED w)"
proof -
  from assms(2) have "card_objs w ! c = this" by (auto simp: card_at_def split: if_splits)
  moreover from assms(3) have "status this = ACTIVE"
    by (cases "status this") (simp_all add: closed_or_blocked_def)
  ultimately show ?thesis unfolding set_status_def
    by (intro evolves_card_update assms(1)) (simp add: card_evolves_block)
qed

lemma evolves_set_status_closed: "evolves w0 w \<Longrightarrow> evolves w0 (set_status c CLOSED w)"
  unfolding set_status_def by (rule evolves_card_update) simp_all

lemma evolves_append_transaction: "evolves w0 w \<Longrightarrow> evolves w0 (append_transaction c tr w)"
  unfolding append_transaction_def by (rule evolves_card_update) simp_all

lemma evolves_add_balance: "evolves w0 w \<Longrightarrow> evolves w0 (add_balance a x w)"
  by (erule evolves_same_objs) (simp_all add: add_balance_def)

lemma evolves_add_cashback: "evolves w0 w \<Longrightarrow> evolves w0 (add_cashback a x w)"
  by (erule evolves_same_objs) (simp_all add: add_cashback_def)

lemma evolves_log_transaction: "evolves w0 w \<Longrightarrow> evolves w0 (log_transaction tr w)"
  by (erule evolves_same_objs) (simp_all add: log_transaction_def)

lemma evolves_timestamp: "evolves w0 w \<Longrightarrow> evolves w0 (w\<lparr>TIMESTAMP_GENERATOR := n\<rparr>)"
  by (erule evolves_same_objs) simp_all

lemma evolves_error_log: "evolves w0 w \<Longrightarrow> evolves w0 (w\<lparr>error_log := l\<rparr>)"
  by (erule evolves_same_objs) simp_all

lemma draw_timestampD:
  "draw_timestamp d w = (ts, w') \<Longrightarrow>
     w' = w\<lparr>TIMESTAMP_GENERATOR := snd (next_timestamp_after d (TIMESTAMP_GENERATOR w))\<rparr>
     \<and> ts = fst (next_timestamp_after d (TIMESTAMP_GENERATOR w))"
  by (auto simp: draw_timestamp_def split: prod.splits)

lemmas evolves_intros =
  evolves_append_transaction evolves_add_balance evolves_add_cashback evolves_log_transaction
  evolves_timestamp evolves_error_log evolves_set_status_closed

lemma evolves_Card_deposit: "evolves w (snd (Card_deposit self amt w))"
  by (auto simp: Card_deposit_def Let_def split: option.splits prod.splits
      dest!: draw_timestampD intro!: evolves_intros evolves_set_status_blocked)

lemma evolves_Card_transfer: "evolves w (snd (Card_transfer self dest amt w))"
  by (auto simp: Card_transfer_def Let_def split: option.splits prod.splits
      dest!: draw_timestampD intro!: evolves_intros evolves_set_status_blocked)

lemma evolves_Card_pay: "evolves w (snd (Card_pay self amt code w))"
  by (auto simp: Card_pay_def Let_def split: option.splits prod.splits
      dest!: draw_timestampD intro!: evolves_intros evolves_set_status_blocked)

lemma evolves_CashbackDebitCard_pay: "evolves w (snd (CashbackDebitCard_pay rate self amt code w))"
  by (auto simp: CashbackDebitCard_pay_def Let_def split: option.splits prod.splits
      dest!: draw_timestampD intro!: evolves_intros evolves_set_status_blocked)

lemma evolves_pay_body: "evolves w (snd (pay_body self amt code w))"
  by (simp add: pay_body_def SavingCard_pay_def evolves_Card_pay evolves_CashbackDebitCard_pay
      split: option.splits variant.splits)

lemma evolves_SavingCard_accrue_interest: "evolves w (snd (SavingCard_accrue_interest self w))"
  by (auto simp: SavingCard_accrue_interest_def Let_def split: option.splits prod.splits variant.splits
      dest!: draw_timestampD intro!: evolves_intros evolves_set_status_blocked)

lemma evolves_Card_get_balance: "evolves w (snd (Card_get_balance self w))"
  by (simp add: Card_get_balance_def split: option.splits prod.splits)

lemma evolves_Card_get_card_info: "evolves w (snd (Card_get_card_info self flds w))"
  by (simp add: Card_get_card_info_def Let_def split: option.splits prod.splits)

lemma evolves_Card_get_transaction_history: "evolves w (snd (Card_get_transaction_history self w))"
  by (auto simp: Card_get_transaction_history_def Let_def card_at_def
      split: option.splits prod.splits if_splits intro!: evolves_card_update)

lemma evolves_Card_close: "evolves w (snd (Card_close self w))"
  by (simp add: Card_close_def evolves_set_status_closed split: option.splits)

lemma evolves_User_change_pin: "evolves w (snd (User_change_pin pos old_pin new_pin w))"
  by (auto simp: User_change_pin_def split: prod.splits intro: evolves_same_objs [OF evolves_refl])

lemma evolves_Bank_get_global_history: "evolves w (snd (Bank_get_global_history w))"
  by (auto simp: Bank_get_global_history_def Let_def intro: evolves_same_objs [OF evolves_refl])

lemma evolves_append_objs:
  "evolves w0 w \<Longrightarrow> evolves w0 (w\<lparr>account_objs := account_objs w @ as, card_objs := card_objs w @ cs\<rparr>)"
  by (auto simp: evolves_def nth_append)

lemma objs_find_or_create_user:
  "find_or_create_user lname fname pin_arg ph w = (pos, w') \<Longrightarrow>
     card_objs w' = card_objs w \<and> account_objs w' = account_objs w"
  by (auto simp: find_or_create_user_def Let_def split: option.splits)

lemma objs_new_card:
  "new_card cls kw a cid system pan_number w = (r, w') \<Longrightarrow>
     card_objs w' = card_objs w \<and> account_objs w' = account_objs w"
  by (auto simp: new_card_def split: if_splits option.splits prod.splits)

lemma objs_register_card:
  "register_card pos acct crd w = (r, w') \<Longrightarrow>
     card_objs w' = card_objs w @ [crd] \<and> account_objs w' = account_objs w @ [acct]"
  by (auto simp: register_card_def Let_def split: option.splits prod.splits)

lemma objs_Bank_apply_for_card:
  "Bank_apply_for_card lname fname pin_arg ph system cls kw w = (r, w') \<Longrightarrow>
     (card_objs w' = card_objs w \<and> account_objs w' = account_objs w)
     \<or> (\<exists>crd acct. card_objs w' = card_objs w @ [crd] \<and> account_objs w' = account_objs w @ [acct])"
  by (auto simp: Bank_apply_for_card_def Let_def
      split: if_splits option.splits prod.splits sum.splits
      dest!: objs_find_or_create_user objs_new_card objs_register_card)

lemma evolves_Bank_apply_for_card:
  "evolves w (snd (Bank_apply_for_card lname fname pin_arg ph system cls kw w))"
proof -
  obtain r w' where r: "Bank_apply_for_card lname fname pin_arg ph system cls kw w = (r, w')"
    by (cases "Bank_apply_for_card lname fname pin_arg ph system cls kw w")
  from objs_Bank_apply_for_card [OF r] show ?thesis
    unfolding r by (auto simp: evolves_def nth_append)
qed

lemma evolves_body: "evolves w (snd (body op w))"
  by (cases op)
    (simp_all add: evolves_Bank_apply_for_card evolves_Card_deposit evolves_Card_transfer
      evolves_pay_body evolves_SavingCard_accrue_interest evolves_Card_get_balance
      evolves_Card_get_card_info evolves_Card_get_transaction_history evolves_Card_close
      evolves_User_change_pin evolves_Bank_get_global_history)

lemma evolves_try_except_dec:
  "evolves w (snd (f w)) \<Longrightarrow> evolves w (snd (try_except_dec f w))"
  by (auto simp: try_except_dec_def split: prod.splits sum.splits option.splits
      intro: evolves_error_log)

lemma evolves_call: "evolves w (snd (call op w))"
  by (simp add: call_def evolves_try_except_dec evolves_body)

lemma evolves_foldl: "evolves w (foldl (\<lambda>w op. snd (call op w)) w ops)"
proof (induction ops arbitrary: w)
  case Nil
  show ?case by simp
next
  case (Cons op ops)
  from evolves_call Cons.IH show ?case
    by (simp del: foldl_Cons add: foldl_Cons [of _ w op ops]) (rule evolves_trans)
qed


section \<open>Cards that are not Active\<close>

lemma evolves_nth:
  assumes "evolves w w'" and "i < length (card_objs w)"
  shows "i < length (card_objs w')"
    and "identity_of (card_objs w' ! i) = identity_of (card_objs w ! i)"
    and "status_step (status (card_objs w ! i)) (status (card_objs w' ! i))"
  using assms by (auto simp: evolves_def card_evolves_def)







lemma account_of_set_status [simp]:
  "account_of (set_status c s w) (this\<lparr>status := s'\<rparr>) = account_of w this"
  by (simp add: account_of_def set_status_def split: option.splits)

section \<open>The fixtures, evaluated\<close>

lemma sample_card_world_eq:
  "sample_card_world =
    \<lparr>bank_name = TEST_BANK_NAME, bic = ''044525974'', user_seq = 2, account_seq = 2,
     card_seq = 2, pan_seq = 2,
     customers =
       [(1, \<lparr>last_name = IVANOV, first_name = IVAN, pin = ''1234'',
               phone = ''+79161234567'', user_id = 1, accounts = [0], cards = [0]\<rparr>)],
     bank_accounts = [(1, [0])], bank_cards = [(1, [0])],
     transaction_log = [], ISSUE_DATE_GENERATOR = 1, TIMESTAMP_GENERATOR = 0,
     error_log = [],
     account_objs =
       [\<lparr>owner = 1, acc_id = Some ''40817810000000000001'', balance = 0,
           cashback_balance = 0\<rparr>],
     card_objs =
       [\<lparr>account = Some 0, card_id = 1, payment_system = ''MIR'',
           pan = ''2204000000000015'', issue_date = 0, expiry_date = 1461,
           currency = ''RUB'', status = ACTIVE, bank = True,
           transactions = [], variant = PlainCard\<rparr>]\<rparr>"
  by code_simp

lemmas world_eval =
  call_def try_except_dec_def Card_deposit_def Card_transfer_def Card_pay_def
  CashbackDebitCard_pay_def SavingCard_pay_def pay_body_def SavingCard_accrue_interest_def
  Card_get_balance_def Card_close_def card_at_def account_of_def closed_or_blocked_def
  set_status_def add_balance_def add_cashback_def log_transaction_def append_transaction_def
  draw_timestamp_def next_timestamp_after.simps timestamp_at_def Let_def invalid_mcc_def
  DEPOSIT_LIMIT_def TRANSFER_LIMIT_def PAY_LIMIT_def MAX_CASHBACK_RATE_def
  MAX_SAVING_INTEREST_RATE_def FORBIDDEN_MCC_def

lemma saving_card_world_variant:
  "map variant (card_objs saving_card_world) = [SavingCard (3 / 200)]"
  by code_simp

section \<open>Claims\<close>










text \<open>
  C3. Over any sequence of public operations, from any world, a card keeps its place and
  its identity, and its status either stays or takes one of the transitions Active to
  Blocked, Active to Closed, Blocked to Closed: a Closed card stays Closed, and a Blocked
  card never becomes Active again.
\<close>

theorem status_transitions_one_directional:
  assumes "i < length (card_objs w)"
  shows "let w' = foldl (\<lambda>w op. snd (call op w)) w ops;
             s = status (card_objs w ! i);
             s' = status (card_objs w' ! i)
         in i < length (card_objs w')
          \<and> identity_of (card_objs w' ! i) = identity_of (card_objs w ! i)
          \<and> (s' = s \<or> (s = ACTIVE \<and> s' = BLOCKED) \<or> (s = ACTIVE \<and> s' = CLOSED)
              \<or> (s = BLOCKED \<and> s' = CLOSED))
          \<and> (s = CLOSED \<longrightarrow> s' = CLOSED)
          \<and> (s = BLOCKED \<longrightarrow> s' \<noteq> ACTIVE)"
proof -
  let ?w' = "foldl (\<lambda>w op. snd (call op w)) w ops"
  have e: "evolves w ?w'" by (rule evolves_foldl)
  from evolves_nth [OF e assms] show ?thesis
    by (auto simp: Let_def status_step_def)
qed

text \<open>The theorem on the card of the fixture \<open>sample_card\<close>: a deposit over the limit
  blocks it, and \<open>close\<close> closes it for good.\<close>

theorem status_transitions_one_directional_witness:
  "0 < length (card_objs sample_card_world)
   \<and> status (card_objs sample_card_world ! 0) = ACTIVE
   \<and> status (card_objs (foldl (\<lambda>w op. snd (call op w)) sample_card_world
                [Deposit 0 2000000]) ! 0) = BLOCKED
   \<and> status (card_objs (foldl (\<lambda>w op. snd (call op w)) sample_card_world
                [Deposit 0 2000000, Close 0, Deposit 0 5]) ! 0) = CLOSED"
proof -
  have h: "0 < length (card_objs sample_card_world)" by (simp add: sample_card_world_eq)
  from status_transitions_one_directional [OF h, of "[Deposit 0 2000000]"] show ?thesis
    by (simp add: sample_card_world_eq world_eval)
qed

text \<open>
  C8, as amended. On a card in Active status that is linked to an account, a transfer of
  a positive amount to the card itself (or to any Active, linked card with the same card
  id) raises \<open>BusinessRuleError\<close> with the self-transfer message, whatever the amount and
  the balance are, also above the transfer limit, and changes nothing. The checks before
  it come first: an amount that is not positive raises \<open>ValidationError\<close>, a card with no
  account or not in Active status raises \<open>AccessError\<close>.
\<close>

theorem transfer_to_self_rejected:
  assumes "card_at w self = Some this" and "card_at w dest = Some that"
    and "card_id that = card_id this"
  shows "(0 < amt \<and> account_of w this \<noteq> None \<and> account_of w that \<noteq> None
          \<and> status this = ACTIVE \<and> status that = ACTIVE \<longrightarrow>
            Card_transfer self (Some dest) amt w = (Inl (BusinessRuleError TRANSFER_TO_SELF), w))
       \<and> (0 < amt \<and> account_of w this \<noteq> None \<and> status this = ACTIVE \<longrightarrow>
            Card_transfer self (Some self) amt w = (Inl (BusinessRuleError TRANSFER_TO_SELF), w)
          \<and> call (Transfer self (Some self) amt) w
              = (Inr NoneValue, w\<lparr>error_log := error_log w @ [TRANSFER_TO_SELF]\<rparr>))
       \<and> (amt \<le> 0 \<longrightarrow>
            Card_transfer self (Some dest) amt w = (Inl (ValidationError AMOUNT_NEGATIVE), w))
       \<and> (0 < amt \<and> account_of w this = None \<longrightarrow>
            Card_transfer self (Some dest) amt w = (Inl (AccessError ACCOUNT_NOT_LINKED), w))
       \<and> (0 < amt \<and> account_of w this \<noteq> None \<and> status this \<noteq> ACTIVE \<longrightarrow>
            Card_transfer self (Some self) amt w = (Inl (AccessError CARD_CLOSED), w))"
proof -
  have a: "Card_transfer self (Some dest) amt w = (Inl (BusinessRuleError TRANSFER_TO_SELF), w)"
    if "0 < amt" "account_of w this \<noteq> None" "account_of w that \<noteq> None"
      "status this = ACTIVE" "status that = ACTIVE"
    using that assms by (auto simp: Card_transfer_def closed_or_blocked_def)
  have b: "Card_transfer self (Some self) amt w = (Inl (BusinessRuleError TRANSFER_TO_SELF), w)"
    if "0 < amt" "account_of w this \<noteq> None" "status this = ACTIVE"
    using that assms(1) by (auto simp: Card_transfer_def closed_or_blocked_def)
  have c: "call (Transfer self (Some self) amt) w
              = (Inr NoneValue, w\<lparr>error_log := error_log w @ [TRANSFER_TO_SELF]\<rparr>)"
    if "0 < amt" "account_of w this \<noteq> None" "status this = ACTIVE"
    using b [OF that] by (simp add: call_def try_except_dec_def)
  have d: "Card_transfer self (Some dest) amt w = (Inl (ValidationError AMOUNT_NEGATIVE), w)"
    if "amt \<le> 0"
    using that assms(1) by (simp add: Card_transfer_def)
  have e: "Card_transfer self (Some dest) amt w = (Inl (AccessError ACCOUNT_NOT_LINKED), w)"
    if "0 < amt" "account_of w this = None"
    using that assms(1) by (simp add: Card_transfer_def)
  have f: "Card_transfer self (Some self) amt w = (Inl (AccessError CARD_CLOSED), w)"
    if "0 < amt" "account_of w this \<noteq> None" "status this \<noteq> ACTIVE"
    using that assms(1) by (cases "status this") (auto simp: Card_transfer_def closed_or_blocked_def)
  from a b c d e f show ?thesis by blast
qed

text \<open>The theorem on the card of the fixture \<open>sample_card\<close>, which has no funds, with an
  amount above the transfer limit.\<close>

theorem transfer_to_self_rejected_witness:
  "card_at sample_card_world 0 = Some (card_objs sample_card_world ! 0)
   \<and> (0::real) < 1000000 \<and> account_of sample_card_world (card_objs sample_card_world ! 0) \<noteq> None
   \<and> status (card_objs sample_card_world ! 0) = ACTIVE
   \<and> Card_transfer 0 (Some 0) 1000000 sample_card_world
       = (Inl (BusinessRuleError TRANSFER_TO_SELF), sample_card_world)"
proof -
  have h1: "card_at sample_card_world 0 = Some (card_objs sample_card_world ! 0)"
    by (simp add: sample_card_world_eq card_at_def)
  have h2: "account_of sample_card_world (card_objs sample_card_world ! 0) \<noteq> None"
    by (simp add: sample_card_world_eq account_of_def)
  have h3: "status (card_objs sample_card_world ! 0) = ACTIVE"
    by (simp add: sample_card_world_eq)
  from transfer_to_self_rejected [OF h1 h1 refl, of 1000000] h1 h2 h3 show ?thesis by simp
qed

text \<open>
  C8 as stated ("every card and every amount") fails: a self-transfer of the amount 0
  raises \<open>ValidationError\<close>, and one from a closed card raises \<open>AccessError\<close>.
\<close>

theorem transfer_to_self_counterexample:
  "card_at sample_card_world 0 = Some (card_objs sample_card_world ! 0)
   \<and> Card_transfer 0 (Some 0) 0 sample_card_world
       = (Inl (ValidationError AMOUNT_NEGATIVE), sample_card_world)
   \<and> Card_transfer 0 (Some 0) 100 (snd (call (Close 0) sample_card_world))
       = (Inl (AccessError CARD_CLOSED), snd (call (Close 0) sample_card_world))"
  by (simp add: sample_card_world_eq world_eval)

text \<open>
  C9. \<open>SavingCard.pay\<close> raises \<open>BusinessRuleError\<close> with the saving-card purchase-ban
  message for every amount and every category code, and leaves the world as it was; the
  public method on a saving card logs the message, returns \<open>None\<close>, and changes no account,
  no card and no ledger.
\<close>

theorem saving_card_pay_always_fails:
  "SavingCard_pay self amt code w = (Inl (BusinessRuleError PAYMENT_NOT_ALLOWED_FOR_SAVING), w)
   \<and> (card_at w self = Some this \<and> variant this = SavingCard rate \<longrightarrow>
         pay_body self amt code w = (Inl (BusinessRuleError PAYMENT_NOT_ALLOWED_FOR_SAVING), w)
       \<and> call (Pay self amt code) w
           = (Inr NoneValue, w\<lparr>error_log := error_log w @ [PAYMENT_NOT_ALLOWED_FOR_SAVING]\<rparr>)
       \<and> account_objs (snd (call (Pay self amt code) w)) = account_objs w
       \<and> card_objs (snd (call (Pay self amt code) w)) = card_objs w
       \<and> transaction_log (snd (call (Pay self amt code) w)) = transaction_log w)"
  by (simp add: SavingCard_pay_def pay_body_def call_def try_except_dec_def)

text \<open>The theorem on a saving card issued by the bank.\<close>

theorem saving_card_pay_always_fails_witness:
  "card_at saving_card_world 0 = Some (card_objs saving_card_world ! 0)
   \<and> variant (card_objs saving_card_world ! 0) = SavingCard (3 / 200)
   \<and> pay_body 0 100 ''5812'' saving_card_world
       = (Inl (BusinessRuleError PAYMENT_NOT_ALLOWED_FOR_SAVING), saving_card_world)"
proof -
  from saving_card_world_variant have l: "length (card_objs saving_card_world) = 1"
    by (metis length_map list.size(3,4) One_nat_def add_0)
  then have h1: "card_at saving_card_world 0 = Some (card_objs saving_card_world ! 0)"
    by (simp add: card_at_def)
  from saving_card_world_variant l have h2: "variant (card_objs saving_card_world ! 0) = SavingCard (3 / 200)"
    by (metis nth_map nth_Cons_0 zero_less_one)
  from saving_card_pay_always_fails [of 0 100 "''5812''" saving_card_world
      "card_objs saving_card_world ! 0" "3 / 200"] h1 h2
  show ?thesis by simp
qed

end
